theory Spec2Isabelle
  imports Main "HOL-Library.Word" "HOL-Library.Sublist"
begin

section \<open>Strings and \<open>String.prototype.trim\<close>\<close>

text \<open>
  A JavaScript string is a sequence of UTF-16 code units. \<open>trim\<close> removes, from both
  ends, the code units that ECMAScript classifies as WhiteSpace or LineTerminator; all
  of them lie in the Basic Multilingual Plane, so each is a single code unit.
\<close>

type_synonym jsstring = "16 word list"

definition isWhiteSpace :: "16 word \<Rightarrow> bool" where
  "isWhiteSpace c =
     (c \<in> {0x0009, 0x000A, 0x000B, 0x000C, 0x000D, 0x0020, 0x00A0, 0x1680,
            0x2000, 0x2001, 0x2002, 0x2003, 0x2004, 0x2005, 0x2006, 0x2007,
            0x2008, 0x2009, 0x200A, 0x2028, 0x2029, 0x202F, 0x205F, 0x3000,
            0xFEFF})"

definition trim :: "jsstring \<Rightarrow> jsstring" where
  "trim s = rev (dropWhile isWhiteSpace (rev (dropWhile isWhiteSpace s)))"

text \<open>ASCII literals as code units, for concrete inputs.\<close>

definition utf16 :: "string \<Rightarrow> jsstring" where
  "utf16 s = map of_char s"


section \<open>Data model\<close>

text \<open>
  \<^verbatim>\<open>interface Todo { id: number; text: string; completed: boolean; isEditing: boolean }\<close>
  The id is the value of \<^verbatim>\<open>Date.now()\<close>, an integer number of milliseconds.
\<close>

record Todo =
  id_todo :: int
  text_todo :: jsstring
  completed :: bool
  isEditing :: bool

text \<open>
  The component state: \<^verbatim>\<open>useState<Todo[]>([])\<close> and \<^verbatim>\<open>useState("")\<close>. In the
  optimized page the draft \<open>newTodo\<close> lives in the \<open>TodoInput\<close> component and \<open>todos\<close> in
  \<open>TodoList\<close>; one record holds both here as well.
\<close>

record state =
  todos :: "Todo list"
  newTodo :: jsstring

definition initial :: state where
  "initial = \<lparr>todos = [], newTodo = []\<rparr>"


section \<open>The basic page (\<open>src/app/page.tsx\<close>)\<close>

text \<open>
  Every handler runs inside one UI event and the component is rendered again before the
  next event, so the \<open>todos\<close> and \<open>newTodo\<close> a handler closes over are the current state.
  \<^verbatim>\<open>Date.now()\<close> is an input of the model, the argument \<open>now\<close>.
\<close>

definition setNewTodo :: "jsstring \<Rightarrow> state \<Rightarrow> state" where
  "setNewTodo v st = st\<lparr>newTodo := v\<rparr>"

definition addTodo :: "int \<Rightarrow> state \<Rightarrow> state" where
  "addTodo now st =
     (if trim (newTodo st) \<noteq> [] then
        st\<lparr>todos := todos st @
               [\<lparr>id_todo = now, text_todo = newTodo st, completed = False, isEditing = False\<rparr>],
           newTodo := []\<rparr>
      else st)"

definition toggleTodo :: "int \<Rightarrow> state \<Rightarrow> state" where
  "toggleTodo i st =
     st\<lparr>todos := map (\<lambda>todo. if id_todo todo = i
                               then todo\<lparr>completed := \<not> completed todo\<rparr> else todo)
                      (todos st)\<rparr>"

definition removeTodo :: "int \<Rightarrow> state \<Rightarrow> state" where
  "removeTodo i st = st\<lparr>todos := filter (\<lambda>todo. id_todo todo \<noteq> i) (todos st)\<rparr>"

definition startEditing :: "int \<Rightarrow> state \<Rightarrow> state" where
  "startEditing i st =
     st\<lparr>todos := map (\<lambda>todo. if id_todo todo = i then todo\<lparr>isEditing := True\<rparr> else todo)
                      (todos st)\<rparr>"

definition updateTodoText :: "int \<Rightarrow> jsstring \<Rightarrow> state \<Rightarrow> state" where
  "updateTodoText i newText st =
     st\<lparr>todos := map (\<lambda>todo. if id_todo todo = i then todo\<lparr>text_todo := newText\<rparr> else todo)
                      (todos st)\<rparr>"

definition saveTodoEdit :: "int \<Rightarrow> state \<Rightarrow> state" where
  "saveTodoEdit i st =
     st\<lparr>todos := map (\<lambda>todo. if id_todo todo = i then todo\<lparr>isEditing := False\<rparr> else todo)
                      (todos st)\<rparr>"


section \<open>The optimized page (\<open>src/app/optimized/page.tsx\<close>)\<close>

text \<open>
  \<open>TodoInput\<close> keeps the draft and calls \<open>onAdd\<close>, which is the list's \<open>addTodo\<close>, with the
  trimmed draft. \<open>addTodo\<close>, \<open>toggleTodo\<close> and \<open>removeTodo\<close> use functional updates
  \<^verbatim>\<open>setTodos((prev) => ...)\<close>; the other three read \<open>todos\<close> from the closure.
\<close>

definition handleChange :: "jsstring \<Rightarrow> state \<Rightarrow> state" where
  "handleChange v st = st\<lparr>newTodo := v\<rparr>"

definition addTodo_optimized :: "int \<Rightarrow> jsstring \<Rightarrow> state \<Rightarrow> state" where
  "addTodo_optimized now txt st =
     st\<lparr>todos := todos st @
            [\<lparr>id_todo = now, text_todo = txt, completed = False, isEditing = False\<rparr>]\<rparr>"

definition handleAdd :: "int \<Rightarrow> state \<Rightarrow> state" where
  "handleAdd now st =
     (if trim (newTodo st) \<noteq> [] then
        (addTodo_optimized now (trim (newTodo st)) st)\<lparr>newTodo := []\<rparr>
      else st)"

definition toggleTodo_optimized :: "int \<Rightarrow> state \<Rightarrow> state" where
  "toggleTodo_optimized i st =
     st\<lparr>todos := map (\<lambda>todo. if id_todo todo = i
                               then todo\<lparr>completed := \<not> completed todo\<rparr> else todo)
                      (todos st)\<rparr>"

definition removeTodo_optimized :: "int \<Rightarrow> state \<Rightarrow> state" where
  "removeTodo_optimized i st =
     st\<lparr>todos := filter (\<lambda>todo. id_todo todo \<noteq> i) (todos st)\<rparr>"

definition startEditing_optimized :: "int \<Rightarrow> state \<Rightarrow> state" where
  "startEditing_optimized i st =
     st\<lparr>todos := map (\<lambda>todo. if id_todo todo = i then todo\<lparr>isEditing := True\<rparr> else todo)
                      (todos st)\<rparr>"

definition updateTodoText_optimized :: "int \<Rightarrow> jsstring \<Rightarrow> state \<Rightarrow> state" where
  "updateTodoText_optimized i newText st =
     st\<lparr>todos := map (\<lambda>todo. if id_todo todo = i then todo\<lparr>text_todo := newText\<rparr> else todo)
                      (todos st)\<rparr>"

definition saveTodoEdit_optimized :: "int \<Rightarrow> state \<Rightarrow> state" where
  "saveTodoEdit_optimized i st =
     st\<lparr>todos := map (\<lambda>todo. if id_todo todo = i then todo\<lparr>isEditing := False\<rparr> else todo)
                      (todos st)\<rparr>"


section \<open>Sequences of controller operations\<close>

text \<open>
  One constructor per user action. \<open>AddTodo now v\<close> is typing \<open>v\<close> into the input field
  and clicking Add at time \<open>now\<close>.
\<close>

datatype operation =
    AddTodo int jsstring
  | ToggleTodo int
  | UpdateTodoText int jsstring
  | StartEditing int
  | SaveTodoEdit int
  | RemoveTodo int

fun step_basic :: "operation \<Rightarrow> state \<Rightarrow> state" where
  "step_basic (AddTodo now v) st = addTodo now (setNewTodo v st)"
| "step_basic (ToggleTodo i) st = toggleTodo i st"
| "step_basic (UpdateTodoText i v) st = updateTodoText i v st"
| "step_basic (StartEditing i) st = startEditing i st"
| "step_basic (SaveTodoEdit i) st = saveTodoEdit i st"
| "step_basic (RemoveTodo i) st = removeTodo i st"

fun step_optimized :: "operation \<Rightarrow> state \<Rightarrow> state" where
  "step_optimized (AddTodo now v) st = handleAdd now (handleChange v st)"
| "step_optimized (ToggleTodo i) st = toggleTodo_optimized i st"
| "step_optimized (UpdateTodoText i v) st = updateTodoText_optimized i v st"
| "step_optimized (StartEditing i) st = startEditing_optimized i st"
| "step_optimized (SaveTodoEdit i) st = saveTodoEdit_optimized i st"
| "step_optimized (RemoveTodo i) st = removeTodo_optimized i st"

fun run_basic :: "operation list \<Rightarrow> state \<Rightarrow> state" where
  "run_basic [] st = st"
| "run_basic (op # ops) st = run_basic ops (step_basic op st)"

fun run_optimized :: "operation list \<Rightarrow> state \<Rightarrow> state" where
  "run_optimized [] st = st"
| "run_optimized (op # ops) st = run_optimized ops (step_optimized op st)"

text \<open>
  The Todos created in the lifetime of a collection: those a step appends to the
  collection it starts from, collected along the run, removed ones included.
\<close>

fun appended_basic :: "operation \<Rightarrow> state \<Rightarrow> Todo list" where
  "appended_basic (AddTodo now v) st =
     drop (length (todos st)) (todos (step_basic (AddTodo now v) st))"
| "appended_basic _ st = []"

fun appended_optimized :: "operation \<Rightarrow> state \<Rightarrow> Todo list" where
  "appended_optimized (AddTodo now v) st =
     drop (length (todos st)) (todos (step_optimized (AddTodo now v) st))"
| "appended_optimized _ st = []"

fun created_basic :: "operation list \<Rightarrow> state \<Rightarrow> Todo list" where
  "created_basic [] st = []"
| "created_basic (op # ops) st = appended_basic op st @ created_basic ops (step_basic op st)"

fun created_optimized :: "operation list \<Rightarrow> state \<Rightarrow> Todo list" where
  "created_optimized [] st = []"
| "created_optimized (op # ops) st =
     appended_optimized op st @ created_optimized ops (step_optimized op st)"

text \<open>
  The values of \<^verbatim>\<open>Date.now()\<close> at the Add clicks whose draft is accepted (does not trim to
  the empty string), in the order of the clicks.
\<close>

fun accepted_add_times :: "operation list \<Rightarrow> int list" where
  "accepted_add_times [] = []"
| "accepted_add_times (AddTodo now v # ops) =
     (if trim v \<noteq> [] then now # accepted_add_times ops else accepted_add_times ops)"
| "accepted_add_times (_ # ops) = accepted_add_times ops"

fun add_input_trimmed :: "operation \<Rightarrow> bool" where
  "add_input_trimmed (AddTodo now v) = (trim v = [] \<or> trim v = v)"
| "add_input_trimmed _ = True"


text \<open>Sample data for concrete evaluations.\<close>

definition buy_milk :: Todo where
  "buy_milk = \<lparr>id_todo = 1, text_todo = utf16 ''Buy milk'', completed = False, isEditing = False\<rparr>"

definition walk_dog :: Todo where
  "walk_dog = \<lparr>id_todo = 2, text_todo = utf16 ''Walk dog'', completed = True, isEditing = True\<rparr>"

definition two_todos :: state where
  "two_todos = \<lparr>todos = [buy_milk, walk_dog], newTodo = []\<rparr>"

definition same_millisecond :: "operation list" where
  "same_millisecond = [AddTodo 5 (utf16 ''A''), AddTodo 5 (utf16 ''B'')]"

definition clock_steps_back :: "operation list" where
  "clock_steps_back =
     [AddTodo 5 (utf16 ''A''), AddTodo 5 (utf16 ''   ''), RemoveTodo 5,
      AddTodo 3 (utf16 ''B''), ToggleTodo 3, AddTodo 7 (utf16 ''C'')]"

definition session :: "operation list" where
  "session =
     [AddTodo 1 (utf16 ''A''), AddTodo 2 (utf16 ''   ''), AddTodo 3 (utf16 ''B''),
      ToggleTodo 1, StartEditing 3, UpdateTodoText 3 (utf16 ''C''), SaveTodoEdit 3,
      RemoveTodo 1, AddTodo 4 (utf16 ''D'')]"


section \<open>Facts about \<open>trim\<close> and the list operations\<close>

lemmas ops_defs =
  toggleTodo_def removeTodo_def startEditing_def updateTodoText_def saveTodoEdit_def
  toggleTodo_optimized_def removeTodo_optimized_def startEditing_optimized_def
  updateTodoText_optimized_def saveTodoEdit_optimized_def

lemmas add_defs =
  addTodo_def setNewTodo_def handleAdd_def handleChange_def addTodo_optimized_def

lemmas sample_defs =
  initial_def buy_milk_def walk_dog_def two_todos_def utf16_def trim_def isWhiteSpace_def

lemma all_dropWhile_iff: "(\<forall>c \<in> set (dropWhile P s). P c) \<longleftrightarrow> (\<forall>c \<in> set s. P c)"
  by (induction s) auto

lemma trim_Nil_iff: "trim s = [] \<longleftrightarrow> (\<forall>c \<in> set s. isWhiteSpace c)"
  by (simp add: trim_def dropWhile_eq_Nil_conv all_dropWhile_iff)

lemma absent_map_id:
  "i \<notin> id_todo ` set ts \<Longrightarrow> map (\<lambda>todo. if id_todo todo = i then f todo else todo) ts = ts"
  by (induction ts) auto

lemma absent_filter_id:
  "i \<notin> id_todo ` set ts \<Longrightarrow> filter (\<lambda>todo. id_todo todo \<noteq> i) ts = ts"
  by (induction ts) auto


section \<open>Adding\<close>

text \<open>
  C1. For every state and every input string, adding is a no-op on the collection when
  the trimmed input is empty; otherwise exactly one Todo is appended, with
  \<open>completed = False\<close> and \<open>isEditing = False\<close>, and the length grows by exactly 1. This
  holds for \<open>addTodo\<close> of the basic page and for \<open>handleAdd\<close> of the optimized page.
\<close>

theorem addTodo_noop_or_appends_one:
  "(trim v = [] \<longrightarrow>
      todos (addTodo now (setNewTodo v st)) = todos st \<and>
      todos (handleAdd now (handleChange v st)) = todos st) \<and>
   (trim v \<noteq> [] \<longrightarrow>
      (\<exists>t. todos (addTodo now (setNewTodo v st)) = todos st @ [t] \<and>
           \<not> completed t \<and> \<not> isEditing t) \<and>
      length (todos (addTodo now (setNewTodo v st))) = length (todos st) + 1 \<and>
      (\<exists>t. todos (handleAdd now (handleChange v st)) = todos st @ [t] \<and>
           \<not> completed t \<and> \<not> isEditing t) \<and>
      length (todos (handleAdd now (handleChange v st))) = length (todos st) + 1)"
  by (simp add: addTodo_def setNewTodo_def handleAdd_def handleChange_def addTodo_optimized_def)


theorem addTodo_noop_or_appends_one_witness:
  "trim (utf16 ''   '') = [] \<and>
   todos (addTodo 1 (setNewTodo (utf16 ''   '') two_todos)) = todos two_todos \<and>
   todos (handleAdd 1 (handleChange (utf16 ''   '') two_todos)) = todos two_todos \<and>
   trim (utf16 ''Buy milk'') \<noteq> [] \<and>
   length (todos (addTodo 1 (setNewTodo (utf16 ''Buy milk'') initial))) = 1 \<and>
   length (todos (handleAdd 1 (handleChange (utf16 ''Buy milk'') initial))) = 1"
  using addTodo_noop_or_appends_one [of "utf16 ''   ''" 1 two_todos]
        addTodo_noop_or_appends_one [of "utf16 ''Buy milk''" 1 initial]
  by (simp add: sample_defs)


section \<open>Editing the text\<close>

text \<open>
  C2, as amended. \<open>updateTodoText i v\<close> sets the text of every Todo whose id is \<open>i\<close> to
  \<open>v\<close>, whatever its \<open>isEditing\<close> flag, and changes nothing else; it is a no-op when no
  Todo has the id. The handler has no test of \<open>isEditing\<close> in either page: it is the
  rendered list that offers the text field only for a Todo whose flag is set.
\<close>

theorem updateTodoText_sets_text_of_matching:
  "length (todos (updateTodoText i v st)) = length (todos st) \<and>
   (\<forall>k < length (todos st).
      (id_todo (todos st ! k) = i \<longrightarrow>
         todos (updateTodoText i v st) ! k = (todos st ! k)\<lparr>text_todo := v\<rparr>) \<and>
      (id_todo (todos st ! k) \<noteq> i \<longrightarrow>
         todos (updateTodoText i v st) ! k = todos st ! k)) \<and>
   (i \<notin> id_todo ` set (todos st) \<longrightarrow> updateTodoText i v st = st) \<and>
   updateTodoText_optimized i v st = updateTodoText i v st"
  by (simp add: updateTodoText_def updateTodoText_optimized_def absent_map_id)

theorem updateTodoText_sets_text_of_matching_witness:
  "id_todo (todos two_todos ! 0) = 1 \<and> \<not> isEditing (todos two_todos ! 0) \<and>
   todos (updateTodoText 1 (utf16 ''Eggs'') two_todos) ! 0
     = (todos two_todos ! 0)\<lparr>text_todo := utf16 ''Eggs''\<rparr> \<and>
   todos (updateTodoText 1 (utf16 ''Eggs'') two_todos) ! 1 = todos two_todos ! 1 \<and>
   7 \<notin> id_todo ` set (todos two_todos) \<and>
   updateTodoText 7 (utf16 ''Eggs'') two_todos = two_todos"
  using updateTodoText_sets_text_of_matching [of 1 "utf16 ''Eggs''" two_todos]
        updateTodoText_sets_text_of_matching [of 7 "utf16 ''Eggs''" two_todos]
  by (simp add: sample_defs updateTodoText_def)

text \<open>
  The claim as written fails: a Todo that is not being edited (\<open>isEditing = False\<close>)
  has its text replaced all the same.
\<close>

theorem updateTodoText_ignores_isEditing:
  "\<not> isEditing \<lparr>id_todo = 1, text_todo = utf16 ''a'', completed = False, isEditing = False\<rparr> \<and>
   todos (updateTodoText 1 (utf16 ''b'')
      \<lparr>todos = [\<lparr>id_todo = 1, text_todo = utf16 ''a'', completed = False, isEditing = False\<rparr>],
       newTodo = []\<rparr>)
   = [\<lparr>id_todo = 1, text_todo = utf16 ''b'', completed = False, isEditing = False\<rparr>] \<and>
   utf16 ''b'' \<noteq> utf16 ''a''"
  by (simp add: updateTodoText_def utf16_def)


section \<open>The two pages compared\<close>

lemma step_optimized_eq_basic:
  "add_input_trimmed op \<Longrightarrow> step_optimized op st = step_basic op st"
  by (cases op) (auto simp: ops_defs add_defs)

text \<open>
  C3, as amended. For every starting state and every sequence of operations in which
  each input of \<open>addTodo\<close> either trims to the empty string or has no leading or trailing
  white space, the two pages reach the same state. (On any other input the basic page
  stores the input as typed and the optimized page stores it trimmed.)
\<close>

theorem pages_agree_on_trimmed_inputs:
  "\<forall>op \<in> set ops. add_input_trimmed op \<Longrightarrow> run_optimized ops st = run_basic ops st"
  by (induction ops arbitrary: st) (simp_all add: step_optimized_eq_basic)

theorem pages_agree_on_trimmed_inputs_witness:
  "list_all add_input_trimmed session \<and>
   run_optimized session initial = run_basic session initial \<and>
   map text_todo (todos (run_basic session initial)) = [utf16 ''C'', utf16 ''D'']"
  using pages_agree_on_trimmed_inputs [of session initial]
  by (simp add: session_def sample_defs ops_defs add_defs)

text \<open>
  The claim as written fails on an input with surrounding white space: for the input
  \<open>'' a ''\<close> the basic page stores \<open>'' a ''\<close> and the optimized page stores \<open>''a''\<close>.
\<close>

theorem pages_differ_on_untrimmed_input:
  "map text_todo (todos (run_basic [AddTodo 1 (utf16 '' a '')] initial)) = [utf16 '' a ''] \<and>
   map text_todo (todos (run_optimized [AddTodo 1 (utf16 '' a '')] initial)) = [utf16 ''a''] \<and>
   todos (run_basic [AddTodo 1 (utf16 '' a '')] initial) \<noteq>
   todos (run_optimized [AddTodo 1 (utf16 '' a '')] initial)"
  by (simp add: sample_defs add_defs)


section \<open>Removing\<close>

lemma length_filter_distinct:
  "distinct (map f xs) \<Longrightarrow> i \<in> f ` set xs \<Longrightarrow> length (filter (\<lambda>t. f t = i) xs) = 1"
  by (induction xs) (auto simp: filter_empty_conv image_iff)

lemma length_filter_split:
  "length (filter (\<lambda>t. f t \<noteq> i) xs) + length (filter (\<lambda>t. f t = i) xs) = length xs"
  by (induction xs) auto

text \<open>
  C4, as amended. \<open>removeTodo i\<close> deletes every Todo whose id is \<open>i\<close>: none with that id
  remains, the ids that remain are the others, and the length decreases by the number
  of Todos that had the id. When the ids of the collection are pairwise distinct and
  \<open>i\<close> is present, the length decreases by exactly 1. When \<open>i\<close> is not present the state
  is unchanged. The optimized page's \<open>removeTodo\<close> is the same function.
\<close>

theorem removeTodo_deletes_all_matching:
  "id_todo ` set (todos (removeTodo i st)) = id_todo ` set (todos st) - {i} \<and>
   length (todos (removeTodo i st)) + length (filter (\<lambda>t. id_todo t = i) (todos st))
     = length (todos st) \<and>
   (distinct (map id_todo (todos st)) \<and> i \<in> id_todo ` set (todos st) \<longrightarrow>
      length (todos (removeTodo i st)) + 1 = length (todos st)) \<and>
   (i \<notin> id_todo ` set (todos st) \<longrightarrow> removeTodo i st = st) \<and>
   removeTodo_optimized i st = removeTodo i st"
proof -
  have ids: "id_todo ` set (todos (removeTodo i st)) = id_todo ` set (todos st) - {i}"
    by (auto simp: removeTodo_def)
  have len: "length (todos (removeTodo i st)) + length (filter (\<lambda>t. id_todo t = i) (todos st))
     = length (todos st)"
    by (simp add: removeTodo_def length_filter_split)
  have one: "length (todos (removeTodo i st)) + 1 = length (todos st)"
    if "distinct (map id_todo (todos st))" and "i \<in> id_todo ` set (todos st)"
    using len length_filter_distinct [OF that] by simp
  have absent: "removeTodo i st = st" if "i \<notin> id_todo ` set (todos st)"
    using that by (simp add: removeTodo_def absent_filter_id)
  have same: "removeTodo_optimized i st = removeTodo i st"
    by (simp add: removeTodo_def removeTodo_optimized_def)
  from ids len one absent same show ?thesis by blast
qed

theorem removeTodo_deletes_all_matching_witness:
  "distinct (map id_todo (todos two_todos)) \<and> 1 \<in> id_todo ` set (todos two_todos) \<and>
   length (todos (removeTodo 1 two_todos)) + 1 = length (todos two_todos) \<and>
   id_todo ` set (todos (removeTodo 1 two_todos)) = {2} \<and>
   7 \<notin> id_todo ` set (todos two_todos) \<and> removeTodo 7 two_todos = two_todos"
  using removeTodo_deletes_all_matching [of 1 two_todos]
        removeTodo_deletes_all_matching [of 7 two_todos]
  by (simp add: sample_defs)

text \<open>
  The claim as written fails on a collection the page can reach: two Todos added within
  the same millisecond share the id 5, and \<open>removeTodo 5\<close> deletes both, so the length
  drops from 2 to 0.
\<close>

theorem removeTodo_deletes_two:
  "5 \<in> id_todo ` set (todos (run_basic same_millisecond initial)) \<and>
   length (todos (run_basic same_millisecond initial)) = 2 \<and>
   length (todos (removeTodo 5 (run_basic same_millisecond initial))) = 0"
  by (simp add: same_millisecond_def sample_defs add_defs removeTodo_def)


section \<open>Toggling\<close>

lemma toggle_twice_list:
  "map (\<lambda>todo. if id_todo todo = i then todo\<lparr>completed := \<not> completed todo\<rparr> else todo)
     (map (\<lambda>todo. if id_todo todo = i then todo\<lparr>completed := \<not> completed todo\<rparr> else todo) ts)
   = ts"
  by (induction ts) auto

lemma toggleTodo_twice: "toggleTodo i (toggleTodo i st) = st"
  unfolding toggleTodo_def by (simp del: map_map add: toggle_twice_list)

lemma toggleTodo_optimized_twice: "toggleTodo_optimized i (toggleTodo_optimized i st) = st"
  unfolding toggleTodo_optimized_def by (simp del: map_map add: toggle_twice_list)

text \<open>
  C5. For every state and every id, \<open>toggleTodo i\<close> flips the \<open>completed\<close> flag of each
  Todo whose id is \<open>i\<close>, and applying it twice gives back the original state. The same
  holds for the optimized page.
\<close>

theorem toggleTodo_flips_and_is_involution:
  "(\<forall>k < length (todos st). id_todo (todos st ! k) = i \<longrightarrow>
      completed (todos (toggleTodo i st) ! k) = (\<not> completed (todos st ! k)) \<and>
      completed (todos (toggleTodo_optimized i st) ! k) = (\<not> completed (todos st ! k))) \<and>
   toggleTodo i (toggleTodo i st) = st \<and>
   toggleTodo_optimized i (toggleTodo_optimized i st) = st"
  by (simp add: toggleTodo_twice toggleTodo_optimized_twice)
     (simp add: toggleTodo_def toggleTodo_optimized_def)

theorem toggleTodo_flips_and_is_involution_witness:
  "id_todo (todos two_todos ! 1) = 2 \<and> completed (todos two_todos ! 1) \<and>
   \<not> completed (todos (toggleTodo 2 two_todos) ! 1) \<and>
   \<not> completed (todos (toggleTodo_optimized 2 two_todos) ! 1) \<and>
   toggleTodo 2 (toggleTodo 2 two_todos) = two_todos"
  using toggleTodo_flips_and_is_involution [of two_todos 2]
  by (simp add: sample_defs toggleTodo_def toggleTodo_optimized_def)


section \<open>Starting and saving an edit\<close>

lemma start_save_list:
  "map (\<lambda>todo. if id_todo todo = i then todo\<lparr>isEditing := False\<rparr> else todo)
     (map (\<lambda>todo. if id_todo todo = i then todo\<lparr>isEditing := True\<rparr> else todo) ts)
   = map (\<lambda>todo. if id_todo todo = i then todo\<lparr>isEditing := False\<rparr> else todo) ts"
  by (induction ts) auto

lemma save_noop_list:
  "\<forall>t \<in> set ts. id_todo t = i \<longrightarrow> \<not> isEditing t \<Longrightarrow>
   map (\<lambda>todo. if id_todo todo = i then todo\<lparr>isEditing := False\<rparr> else todo) ts = ts"
  by (induction ts) auto

text \<open>
  C6. For every state and every id, \<open>startEditing i\<close> followed by \<open>saveTodoEdit i\<close> leaves
  each Todo whose id is \<open>i\<close> with \<open>isEditing = False\<close> and its id, text and \<open>completed\<close>
  flag as before; every other Todo, the length and the draft are unchanged. When no
  Todo with the id was being edited before, the whole state is restored. The same
  holds for the optimized page.
\<close>

theorem startEditing_then_saveTodoEdit:
  "length (todos (saveTodoEdit i (startEditing i st))) = length (todos st) \<and>
   (\<forall>k < length (todos st).
      (id_todo (todos st ! k) = i \<longrightarrow>
         todos (saveTodoEdit i (startEditing i st)) ! k = (todos st ! k)\<lparr>isEditing := False\<rparr>) \<and>
      (id_todo (todos st ! k) \<noteq> i \<longrightarrow>
         todos (saveTodoEdit i (startEditing i st)) ! k = todos st ! k)) \<and>
   newTodo (saveTodoEdit i (startEditing i st)) = newTodo st \<and>
   ((\<forall>t \<in> set (todos st). id_todo t = i \<longrightarrow> \<not> isEditing t) \<longrightarrow>
      saveTodoEdit i (startEditing i st) = st) \<and>
   saveTodoEdit_optimized i (startEditing_optimized i st) = saveTodoEdit i (startEditing i st)"
  by (simp del: map_map add: saveTodoEdit_def startEditing_def saveTodoEdit_optimized_def
      startEditing_optimized_def start_save_list save_noop_list)

theorem startEditing_then_saveTodoEdit_witness:
  "id_todo (todos two_todos ! 0) = 1 \<and> \<not> isEditing buy_milk \<and>
   saveTodoEdit 1 (startEditing 1 two_todos) = two_todos \<and>
   id_todo (todos two_todos ! 1) = 2 \<and>
   todos (saveTodoEdit 2 (startEditing 2 two_todos)) ! 1 = walk_dog\<lparr>isEditing := False\<rparr> \<and>
   todos (saveTodoEdit 2 (startEditing 2 two_todos)) ! 0 = buy_milk"
  using startEditing_then_saveTodoEdit [of 1 two_todos]
        startEditing_then_saveTodoEdit [of 2 two_todos]
  by (simp add: sample_defs saveTodoEdit_def startEditing_def)


section \<open>Ids\<close>

lemma accepted_add_times_Cons:
  "accepted_add_times (op # ops) = accepted_add_times [op] @ accepted_add_times ops"
  by (cases op) simp_all

lemma ids_appended_basic: "map id_todo (appended_basic op st) = accepted_add_times [op]"
  by (cases op) (simp_all add: add_defs)

lemma ids_appended_optimized: "map id_todo (appended_optimized op st) = accepted_add_times [op]"
  by (cases op) (simp_all add: add_defs)

lemma ids_created_basic: "map id_todo (created_basic ops st) = accepted_add_times ops"
proof (induction ops arbitrary: st)
  case Nil
  show ?case by simp
next
  case (Cons op ops)
  show ?case
    using Cons.IH [of "step_basic op st"] accepted_add_times_Cons [of op ops]
    by (simp add: ids_appended_basic)
qed

lemma ids_created_optimized: "map id_todo (created_optimized ops st) = accepted_add_times ops"
proof (induction ops arbitrary: st)
  case Nil
  show ?case by simp
next
  case (Cons op ops)
  show ?case
    using Cons.IH [of "step_optimized op st"] accepted_add_times_Cons [of op ops]
    by (simp add: ids_appended_optimized)
qed

lemma ids_step_basic:
  "set (map id_todo (todos (step_basic op st)))
     \<subseteq> set (map id_todo (todos st)) \<union> set (accepted_add_times [op])"
  by (cases op) (auto simp: ops_defs add_defs)

lemma ids_step_optimized:
  "set (map id_todo (todos (step_optimized op st)))
     \<subseteq> set (map id_todo (todos st)) \<union> set (accepted_add_times [op])"
  by (cases op) (auto simp: ops_defs add_defs)

lemma distinct_step_basic:
  "distinct (map id_todo (todos st)) \<Longrightarrow>
   \<forall>n \<in> set (accepted_add_times [op]). n \<notin> id_todo ` set (todos st) \<Longrightarrow>
   distinct (map id_todo (todos (step_basic op st)))"
  by (cases op)
     (auto simp: ops_defs add_defs distinct_map_filter comp_def if_distrib cong: if_cong)

lemma distinct_step_optimized:
  "distinct (map id_todo (todos st)) \<Longrightarrow>
   \<forall>n \<in> set (accepted_add_times [op]). n \<notin> id_todo ` set (todos st) \<Longrightarrow>
   distinct (map id_todo (todos (step_optimized op st)))"
  by (cases op)
     (auto simp: ops_defs add_defs distinct_map_filter comp_def if_distrib cong: if_cong)

text \<open>
  The invariant of a run: the ids in the collection are pairwise distinct and none of
  them is a timestamp of an accepted Add click still to come.
\<close>

lemma run_basic_ids:
  "distinct (map id_todo (todos st)) \<Longrightarrow>
   id_todo ` set (todos st) \<inter> set (accepted_add_times ops) = {} \<Longrightarrow>
   distinct (accepted_add_times ops) \<Longrightarrow>
   distinct (map id_todo (todos (run_basic ops st)))"
proof (induction ops arbitrary: st)
  case Nil
  then show ?case by simp
next
  case (Cons op ops)
  have t: "accepted_add_times (op # ops) = accepted_add_times [op] @ accepted_add_times ops"
    by (rule accepted_add_times_Cons)
  have d: "distinct (map id_todo (todos (step_basic op st)))"
    using Cons.prems(1,2) by (intro distinct_step_basic) (auto simp: t)
  have b: "id_todo ` set (todos (step_basic op st)) \<inter> set (accepted_add_times ops) = {}"
  proof -
    have "id_todo ` set (todos (step_basic op st))
        \<subseteq> id_todo ` set (todos st) \<union> set (accepted_add_times [op])"
      using ids_step_basic [of op st] by simp
    moreover have "set (accepted_add_times [op]) \<inter> set (accepted_add_times ops) = {}"
      using Cons.prems(3) by (simp add: t)
    moreover have "id_todo ` set (todos st) \<inter> set (accepted_add_times ops) = {}"
      using Cons.prems(2) by (auto simp: t)
    ultimately show ?thesis by blast
  qed
  have s: "distinct (accepted_add_times ops)"
    using Cons.prems(3) by (simp add: t)
  show ?case using Cons.IH [OF d b s] by simp
qed

lemma run_optimized_ids:
  "distinct (map id_todo (todos st)) \<Longrightarrow>
   id_todo ` set (todos st) \<inter> set (accepted_add_times ops) = {} \<Longrightarrow>
   distinct (accepted_add_times ops) \<Longrightarrow>
   distinct (map id_todo (todos (run_optimized ops st)))"
proof (induction ops arbitrary: st)
  case Nil
  then show ?case by simp
next
  case (Cons op ops)
  have t: "accepted_add_times (op # ops) = accepted_add_times [op] @ accepted_add_times ops"
    by (rule accepted_add_times_Cons)
  have d: "distinct (map id_todo (todos (step_optimized op st)))"
    using Cons.prems(1,2) by (intro distinct_step_optimized) (auto simp: t)
  have b: "id_todo ` set (todos (step_optimized op st)) \<inter> set (accepted_add_times ops) = {}"
  proof -
    have "id_todo ` set (todos (step_optimized op st))
        \<subseteq> id_todo ` set (todos st) \<union> set (accepted_add_times [op])"
      using ids_step_optimized [of op st] by simp
    moreover have "set (accepted_add_times [op]) \<inter> set (accepted_add_times ops) = {}"
      using Cons.prems(3) by (simp add: t)
    moreover have "id_todo ` set (todos st) \<inter> set (accepted_add_times ops) = {}"
      using Cons.prems(2) by (auto simp: t)
    ultimately show ?thesis by blast
  qed
  have s: "distinct (accepted_add_times ops)"
    using Cons.prems(3) by (simp add: t)
  show ?case using Cons.IH [OF d b s] by simp
qed

text \<open>The ids in a collection are ids of Todos created during the run.\<close>

lemma run_basic_ids_created:
  "id_todo ` set (todos (run_basic ops st))
     \<subseteq> id_todo ` set (todos st) \<union> set (accepted_add_times ops)"
proof (induction ops arbitrary: st)
  case Nil
  show ?case by simp
next
  case (Cons op ops)
  show ?case
    using Cons.IH [of "step_basic op st"] ids_step_basic [of op st]
      accepted_add_times_Cons [of op ops]
    by auto
qed

lemma run_optimized_ids_created:
  "id_todo ` set (todos (run_optimized ops st))
     \<subseteq> id_todo ` set (todos st) \<union> set (accepted_add_times ops)"
proof (induction ops arbitrary: st)
  case Nil
  show ?case by simp
next
  case (Cons op ops)
  show ?case
    using Cons.IH [of "step_optimized op st"] ids_step_optimized [of op st]
      accepted_add_times_Cons [of op ops]
    by auto
qed

text \<open>
  C7, as amended. Every Todo appended by \<open>addTodo\<close> receives the value of \<^verbatim>\<open>Date.now()\<close>
  at the call as its id: the ids of the Todos created in the lifetime of a collection
  that starts empty are, in order, the timestamps of the accepted Add clicks, and every
  id in the collection reached is one of them. So the ids of the Todos created (removed
  ones included) are pairwise distinct exactly when those timestamps are pairwise
  distinct, and then no two Todos in the collection reached share an id. This holds
  for both pages.
\<close>

theorem ids_are_timestamps_distinct_when_timestamps_are:
  "map id_todo (created_basic ops initial) = accepted_add_times ops \<and>
   map id_todo (created_optimized ops initial) = accepted_add_times ops \<and>
   id_todo ` set (todos (run_basic ops initial)) \<subseteq> id_todo ` set (created_basic ops initial) \<and>
   id_todo ` set (todos (run_optimized ops initial))
     \<subseteq> id_todo ` set (created_optimized ops initial) \<and>
   distinct (map id_todo (created_basic ops initial)) = distinct (accepted_add_times ops) \<and>
   distinct (map id_todo (created_optimized ops initial)) = distinct (accepted_add_times ops) \<and>
   (distinct (accepted_add_times ops) \<longrightarrow>
      distinct (map id_todo (todos (run_basic ops initial))) \<and>
      distinct (map id_todo (todos (run_optimized ops initial))))"
proof -
  have cb: "map id_todo (created_basic ops initial) = accepted_add_times ops"
    by (rule ids_created_basic)
  have co: "map id_todo (created_optimized ops initial) = accepted_add_times ops"
    by (rule ids_created_optimized)
  have "id_todo ` set (created_basic ops initial) = set (accepted_add_times ops)"
    using cb by (metis set_map)
  then have sb: "id_todo ` set (todos (run_basic ops initial))
      \<subseteq> id_todo ` set (created_basic ops initial)"
    using run_basic_ids_created [of ops initial] by (simp add: initial_def)
  have "id_todo ` set (created_optimized ops initial) = set (accepted_add_times ops)"
    using co by (metis set_map)
  then have so: "id_todo ` set (todos (run_optimized ops initial))
      \<subseteq> id_todo ` set (created_optimized ops initial)"
    using run_optimized_ids_created [of ops initial] by (simp add: initial_def)
  have db: "distinct (map id_todo (todos (run_basic ops initial)))"
    if "distinct (accepted_add_times ops)"
    using that run_basic_ids [of initial ops] by (simp add: initial_def)
  have dop: "distinct (map id_todo (todos (run_optimized ops initial)))"
    if "distinct (accepted_add_times ops)"
    using that run_optimized_ids [of initial ops] by (simp add: initial_def)
  from cb co sb so db dop show ?thesis by simp
qed

theorem ids_are_timestamps_distinct_when_timestamps_are_witness:
  "accepted_add_times clock_steps_back = [5, 3, 7] \<and>
   distinct (accepted_add_times clock_steps_back) \<and>
   map id_todo (created_basic clock_steps_back initial) = [5, 3, 7] \<and>
   map id_todo (created_optimized clock_steps_back initial) = [5, 3, 7] \<and>
   distinct (map id_todo (todos (run_basic clock_steps_back initial))) \<and>
   distinct (map id_todo (todos (run_optimized clock_steps_back initial)))"
  using ids_are_timestamps_distinct_when_timestamps_are [of clock_steps_back]
  by (simp add: clock_steps_back_def utf16_def trim_def isWhiteSpace_def)

text \<open>
  The claim as written fails: two Add clicks within the same millisecond give two Todos
  with the same id, in both pages.
\<close>

theorem ids_shared_within_a_millisecond:
  "map id_todo (todos (run_basic same_millisecond initial)) = [5, 5] \<and>
   map id_todo (todos (run_optimized same_millisecond initial)) = [5, 5] \<and>
   \<not> distinct (map id_todo (todos (run_basic same_millisecond initial))) \<and>
   \<not> distinct (map id_todo (todos (run_optimized same_millisecond initial)))"
  by (simp add: same_millisecond_def sample_defs add_defs)


section \<open>No failure\<close>

text \<open>
  C8. Every operation returns a state for every input; nothing in either page raises.
  For every state, each of \<open>toggleTodo\<close>, \<open>updateTodoText\<close>, \<open>startEditing\<close>,
  \<open>saveTodoEdit\<close> and \<open>removeTodo\<close> applied to an id that is not in the collection
  returns the state unchanged, and adding a draft that trims to the empty string
  returns the state unchanged (\<open>addTodo\<close> in the basic page, \<open>handleAdd\<close> in the
  optimized one).
\<close>

theorem operations_degrade_to_noops:
  "(i \<notin> id_todo ` set (todos st) \<longrightarrow>
      toggleTodo i st = st \<and> updateTodoText i v st = st \<and> startEditing i st = st \<and>
      saveTodoEdit i st = st \<and> removeTodo i st = st \<and>
      toggleTodo_optimized i st = st \<and> updateTodoText_optimized i v st = st \<and>
      startEditing_optimized i st = st \<and> saveTodoEdit_optimized i st = st \<and>
      removeTodo_optimized i st = st) \<and>
   (trim (newTodo st) = [] \<longrightarrow> addTodo now st = st \<and> handleAdd now st = st)"
  by (simp add: ops_defs absent_map_id absent_filter_id addTodo_def handleAdd_def)

theorem operations_degrade_to_noops_witness:
  "7 \<notin> id_todo ` set (todos two_todos) \<and>
   toggleTodo 7 two_todos = two_todos \<and>
   updateTodoText 7 (utf16 ''x'') two_todos = two_todos \<and>
   startEditing 7 two_todos = two_todos \<and>
   saveTodoEdit 7 two_todos = two_todos \<and>
   removeTodo 7 two_todos = two_todos \<and>
   trim (newTodo two_todos) = [] \<and>
   addTodo 9 two_todos = two_todos \<and> handleAdd 9 two_todos = two_todos"
  using operations_degrade_to_noops [of 7 two_todos "utf16 ''x''" 9]
  by (simp add: sample_defs)


section \<open>Order\<close>

text \<open>
  C9. Insertion order is preserved by every operation. Adding keeps the old collection
  as a prefix and, when the draft is accepted, puts the one new Todo (with the id
  \<open>now\<close>) last. \<open>toggleTodo\<close>, \<open>updateTodoText\<close>, \<open>startEditing\<close> and \<open>saveTodoEdit\<close> keep
  the sequence of ids as it is, and the result of \<open>removeTodo\<close> is a subsequence of the
  original collection. The same holds for the optimized page.
\<close>

theorem operations_preserve_order:
  "prefix (todos st) (todos (addTodo now st)) \<and>
   (trim (newTodo st) \<noteq> [] \<longrightarrow>
      length (todos (addTodo now st)) = Suc (length (todos st)) \<and>
      id_todo (last (todos (addTodo now st))) = now \<and>
      text_todo (last (todos (addTodo now st))) = newTodo st) \<and>
   prefix (todos st) (todos (handleAdd now st)) \<and>
   (trim (newTodo st) \<noteq> [] \<longrightarrow>
      length (todos (handleAdd now st)) = Suc (length (todos st)) \<and>
      id_todo (last (todos (handleAdd now st))) = now \<and>
      text_todo (last (todos (handleAdd now st))) = trim (newTodo st)) \<and>
   map id_todo (todos (toggleTodo i st)) = map id_todo (todos st) \<and>
   map id_todo (todos (updateTodoText i v st)) = map id_todo (todos st) \<and>
   map id_todo (todos (startEditing i st)) = map id_todo (todos st) \<and>
   map id_todo (todos (saveTodoEdit i st)) = map id_todo (todos st) \<and>
   subseq (todos (removeTodo i st)) (todos st) \<and>
   map id_todo (todos (toggleTodo_optimized i st)) = map id_todo (todos st) \<and>
   map id_todo (todos (updateTodoText_optimized i v st)) = map id_todo (todos st) \<and>
   map id_todo (todos (startEditing_optimized i st)) = map id_todo (todos st) \<and>
   map id_todo (todos (saveTodoEdit_optimized i st)) = map id_todo (todos st) \<and>
   subseq (todos (removeTodo_optimized i st)) (todos st)"
  by (simp add: ops_defs addTodo_def handleAdd_def addTodo_optimized_def comp_def if_distrib
      cong: if_cong)

theorem operations_preserve_order_witness:
  "trim (utf16 ''B'') \<noteq> [] \<and>
   map text_todo (todos (run_basic [AddTodo 1 (utf16 ''A''), AddTodo 2 (utf16 ''B'')] initial))
     = [utf16 ''A'', utf16 ''B''] \<and>
   id_todo (last (todos (run_basic [AddTodo 1 (utf16 ''A''), AddTodo 2 (utf16 ''B'')] initial))) = 2 \<and>
   map text_todo (todos (run_basic
       [AddTodo 1 (utf16 ''A''), AddTodo 2 (utf16 ''B''), RemoveTodo 1] initial))
     = [utf16 ''B'']"
  using operations_preserve_order
          [of "setNewTodo (utf16 ''B'') (run_basic [AddTodo 1 (utf16 ''A'')] initial)" 2 1
              "utf16 ''x''"]
  by (simp add: sample_defs add_defs removeTodo_def)


section \<open>Frame\<close>

text \<open>
  C10. For every state and id, \<open>toggleTodo\<close> changes at most the \<open>completed\<close> field,
  \<open>updateTodoText\<close> at most the \<open>text\<close> field, and \<open>startEditing\<close> and \<open>saveTodoEdit\<close> at
  most the \<open>isEditing\<close> field of each Todo; a Todo whose id does not match is unchanged;
  and the length of the collection is unchanged by all four. The optimized page's four
  operations are the same functions.
\<close>

theorem per_item_operations_frame:
  "length (todos (toggleTodo i st)) = length (todos st) \<and>
   length (todos (updateTodoText i v st)) = length (todos st) \<and>
   length (todos (startEditing i st)) = length (todos st) \<and>
   length (todos (saveTodoEdit i st)) = length (todos st) \<and>
   (\<forall>k < length (todos st).
      todos (toggleTodo i st) ! k
        = (todos st ! k)\<lparr>completed := completed (todos (toggleTodo i st) ! k)\<rparr> \<and>
      todos (updateTodoText i v st) ! k
        = (todos st ! k)\<lparr>text_todo := text_todo (todos (updateTodoText i v st) ! k)\<rparr> \<and>
      todos (startEditing i st) ! k
        = (todos st ! k)\<lparr>isEditing := isEditing (todos (startEditing i st) ! k)\<rparr> \<and>
      todos (saveTodoEdit i st) ! k
        = (todos st ! k)\<lparr>isEditing := isEditing (todos (saveTodoEdit i st) ! k)\<rparr> \<and>
      (id_todo (todos st ! k) \<noteq> i \<longrightarrow>
         todos (toggleTodo i st) ! k = todos st ! k \<and>
         todos (updateTodoText i v st) ! k = todos st ! k \<and>
         todos (startEditing i st) ! k = todos st ! k \<and>
         todos (saveTodoEdit i st) ! k = todos st ! k)) \<and>
   toggleTodo_optimized i st = toggleTodo i st \<and>
   updateTodoText_optimized i v st = updateTodoText i v st \<and>
   startEditing_optimized i st = startEditing i st \<and>
   saveTodoEdit_optimized i st = saveTodoEdit i st"
  by (simp add: ops_defs)

theorem per_item_operations_frame_witness:
  "id_todo (todos two_todos ! 1) \<noteq> 1 \<and>
   todos (toggleTodo 1 two_todos) = [buy_milk\<lparr>completed := True\<rparr>, walk_dog] \<and>
   todos (updateTodoText 1 (utf16 ''Eggs'') two_todos)
     = [buy_milk\<lparr>text_todo := utf16 ''Eggs''\<rparr>, walk_dog] \<and>
   todos (startEditing 1 two_todos) = [buy_milk\<lparr>isEditing := True\<rparr>, walk_dog] \<and>
   todos (saveTodoEdit 2 two_todos) = [buy_milk, walk_dog\<lparr>isEditing := False\<rparr>]"
  using per_item_operations_frame [of 1 two_todos "utf16 ''Eggs''"]
        per_item_operations_frame [of 2 two_todos "utf16 ''Eggs''"]
  by (simp add: sample_defs ops_defs)

end
